theory Spec2Isabelle
  imports Main "HOL-Library.Word"
begin

section \<open>Bytes, errors and the framing codec\<close>

text \<open>
  The endpoint of \<^verbatim>\<open>tools/efro/rpc.py\<close> is modelled by explicit state passing. Python
  \<^verbatim>\<open>bytes\<close> are lists of 8-bit words, Python integers are \<^typ>\<open>int\<close>, and every
  \<^verbatim>\<open>raise\<close> and failing \<^verbatim>\<open>assert\<close> is a value \<open>Inl e\<close> returned together with the
  state the endpoint is left in. Debug printing and logging have no effect on the state
  and are left out.
\<close>

type_synonym byte = "8 word"
type_synonym bytes = "byte list"

datatype error =
    RuntimeError string
  | CommunicationError string
  | AssertionError
  | OverflowError
  | IncompleteReadError
  | KeyError
  | AttributeError

datatype PacketType = HANDSHAKE | KEEPALIVE | MESSAGE | RESPONSE

fun packet_type_value :: "PacketType \<Rightarrow> int" where
  "packet_type_value HANDSHAKE = 0"
| "packet_type_value KEEPALIVE = 1"
| "packet_type_value MESSAGE = 2"
| "packet_type_value RESPONSE = 3"

text \<open>
  \<^verbatim>\<open>int.to_bytes(length, 'big')\<close>: the base-256 digits, most significant first;
  OverflowError when the value is negative or does not fit.
\<close>

fun be_digits :: "nat \<Rightarrow> nat \<Rightarrow> bytes" where
  "be_digits 0 n = []"
| "be_digits (Suc k) n = be_digits k (n div 256) @ [of_nat (n mod 256)]"

definition to_bytes :: "int \<Rightarrow> nat \<Rightarrow> error + bytes" where
  "to_bytes v len =
     (if v < 0 \<or> 256 ^ len \<le> v then Inl OverflowError
      else Inr (be_digits len (nat v)))"

text \<open>\<^verbatim>\<open>int.from_bytes(data, 'big')\<close>.\<close>

definition from_bytes :: "bytes \<Rightarrow> int" where
  "from_bytes bs = foldl (\<lambda>acc b. acc * 256 + uint b) 0 bs"

text \<open>
  The packet expression shared by \<^verbatim>\<open>send_message\<close> (lines 210-212) and
  \<^verbatim>\<open>_handle_raw_message\<close> (lines 500-502): type (1 byte), id (2 bytes), length
  (2 bytes), data. The operands are evaluated left to right, so the first conversion
  that overflows raises.
\<close>

definition encode_packet :: "PacketType \<Rightarrow> int \<Rightarrow> bytes \<Rightarrow> error + bytes" where
  "encode_packet t message_id payload =
     (case to_bytes (packet_type_value t) 1 of
        Inl e \<Rightarrow> Inl e
      | Inr tb \<Rightarrow>
          (case to_bytes message_id 2 of
             Inl e \<Rightarrow> Inl e
           | Inr ib \<Rightarrow>
               (case to_bytes (int (length payload)) 2 of
                  Inl e \<Rightarrow> Inl e
                | Inr lb \<Rightarrow> Inr (tb @ ib @ lb @ payload))))"

section \<open>Endpoint state\<close>

text \<open>
  Tasks are objects shared between the endpoint's weak list \<^verbatim>\<open>_tasks\<close> and the
  in-flight entries, so they live in a pool addressed by task id. A task that was
  garbage collected has no pool entry (its weak reference is dead). \<open>cancel()\<close> only
  requests cancellation; the task is done once the event loop has run it to its end.
\<close>

datatype task_state = Pending | CancelRequested | Finished

text \<open>\<^verbatim>\<open>_InFlightMessage\<close>: the response cell, its event and the waiter task.\<close>

record in_flight_message =
  response :: "bytes option"
  got_response :: bool
  wait_task :: nat

text \<open>The scheduling context of a call: the calling thread and its running loop.\<close>

record ctx =
  current_thread :: nat
  running_loop :: nat

record endpoint =
  handle_raw_message_call :: "(bytes \<Rightarrow> error + bytes) option"
  reader :: bytes
  writer_is_closing :: bool
  writer_closed :: bool
  thread :: nat
  closing :: bool
  did_wait_closed :: bool
  event_loop :: nat
  out_packets :: "bytes list"
  have_out_packets :: bool
  tasks :: "nat list"
  next_message_id :: int
  in_flight_messages :: "int \<rightharpoonup> in_flight_message"
  task_pool :: "nat \<rightharpoonup> task_state"
  next_task :: nat

text \<open>
  \<open>reader\<close> is what remains of the incoming stream up to its end; \<open>writer_is_closing\<close> is
  the writer's \<^verbatim>\<open>is_closing()\<close> and \<open>writer_closed\<close> records that the writer's
  \<^verbatim>\<open>wait_closed()\<close> has been awaited. \<open>next_task\<close> is the identity of the next task
  object to be created. \<^verbatim>\<open>__init__\<close>:
\<close>

definition init :: "(bytes \<Rightarrow> error + bytes) \<Rightarrow> bytes \<Rightarrow> ctx \<Rightarrow> endpoint" where
  "init handler rd c =
     \<lparr> handle_raw_message_call = Some handler,
       reader = rd,
       writer_is_closing = False,
       writer_closed = False,
       thread = current_thread c,
       closing = False,
       did_wait_closed = False,
       event_loop = running_loop c,
       out_packets = [],
       have_out_packets = False,
       tasks = [],
       next_message_id = 65530,
       in_flight_messages = Map.empty,
       task_pool = Map.empty,
       next_task = 0 \<rparr>"

section \<open>Internal helpers\<close>

definition check_env :: "ctx \<Rightarrow> endpoint \<Rightarrow> error option" where
  "check_env c s =
     (if current_thread c \<noteq> thread s then
        Some (RuntimeError
          ''This must be called from the same thread that the endpoint was created in.'')
      else if running_loop c \<noteq> event_loop s then Some AssertionError
      else None)"

definition enqueue_outgoing_packet ::
  "ctx \<Rightarrow> bytes \<Rightarrow> endpoint \<Rightarrow> (error + unit) \<times> endpoint" where
  "enqueue_outgoing_packet c data s =
     (case check_env c s of
        Some e \<Rightarrow> (Inl e, s)
      | None \<Rightarrow>
          (Inr (), s\<lparr>out_packets := out_packets s @ [data], have_out_packets := True\<rparr>))"

text \<open>A weak reference is live when its task still exists and is not done.\<close>

definition task_live :: "endpoint \<Rightarrow> nat \<Rightarrow> bool" where
  "task_live s t =
     (case task_pool s t of None \<Rightarrow> False | Some st \<Rightarrow> st \<noteq> Finished)"

definition prune_tasks :: "endpoint \<Rightarrow> endpoint" where
  "prune_tasks s = s\<lparr>tasks := filter (task_live s) (tasks s)\<rparr>"

definition get_live_tasks :: "endpoint \<Rightarrow> nat list" where
  "get_live_tasks s = filter (task_live s) (tasks s)"

text \<open>\<^verbatim>\<open>task.cancel()\<close>: no effect on a task that is done.\<close>

definition cancel_task :: "nat \<Rightarrow> endpoint \<Rightarrow> endpoint" where
  "cancel_task t s =
     (case task_pool s t of
        Some Pending \<Rightarrow> s\<lparr>task_pool := (task_pool s)(t \<mapsto> CancelRequested)\<rparr>
      | _ \<Rightarrow> s)"

text \<open>\<^verbatim>\<open>_InFlightMessage()\<close>: a pending cell and a freshly created waiter task.\<close>

definition new_in_flight_message :: "endpoint \<Rightarrow> in_flight_message \<times> endpoint" where
  "new_in_flight_message s =
     (\<lparr> response = None, got_response = False, wait_task = next_task s \<rparr>,
      s\<lparr>task_pool := (task_pool s)(next_task s \<mapsto> Pending),
        next_task := Suc (next_task s)\<rparr>)"

text \<open>\<^verbatim>\<open>_InFlightMessage.set_response\<close>.\<close>

definition set_response :: "bytes \<Rightarrow> in_flight_message \<Rightarrow> error + in_flight_message" where
  "set_response data m =
     (if response m \<noteq> None then Inl AssertionError
      else Inr (m\<lparr>response := Some data, got_response := True\<rparr>))"

section \<open>send_message\<close>

text \<open>
  \<^verbatim>\<open>send_message\<close> runs without suspension from its entry to the
  \<^verbatim>\<open>await asyncio.wait_for(...)\<close> of line 230. That part is \<open>send_message_begin\<close>; it is
  written in two pieces so that the program point between the enqueue of lines 209-212
  and the table insert of lines 215-216 is a state of the model.
  \<open>send_message_enqueue\<close> is lines 197-212 and returns the allocated id.
\<close>

definition send_message_enqueue ::
  "ctx \<Rightarrow> bytes \<Rightarrow> endpoint \<Rightarrow> (error + int) \<times> endpoint" where
  "send_message_enqueue c message s =
     (case check_env c s of
        Some e \<Rightarrow> (Inl e, s)
      | None \<Rightarrow>
          if length message > 65535 then
            (Inl (RuntimeError ''Message cannot be larger than 65535 bytes''), s)
          else if closing s then (Inl (CommunicationError ''Endpoint is closed''), s)
          else
            (let message_id = next_message_id s;
                 s1 = s\<lparr>next_message_id := (next_message_id s + 1) mod 65536\<rparr>
             in case encode_packet MESSAGE message_id message of
                  Inl e \<Rightarrow> (Inl e, s1)
                | Inr data \<Rightarrow>
                    (case enqueue_outgoing_packet c data s1 of
                       (Inl e, s2) \<Rightarrow> (Inl e, s2)
                     | (Inr u, s2) \<Rightarrow> (Inr message_id, s2))))"

text \<open>
  Lines 214-220: the assertion, the new table entry, and the waiter task added to the
  pruned task list. The result is what the coroutine keeps across the await: the
  message id and the waiter task of \<^verbatim>\<open>msgobj\<close>.
\<close>

definition send_message_insert ::
  "int \<Rightarrow> endpoint \<Rightarrow> (error + int \<times> nat) \<times> endpoint" where
  "send_message_insert message_id s =
     (if in_flight_messages s message_id \<noteq> None then (Inl AssertionError, s)
      else
        (let (msgobj, s1) = new_in_flight_message s;
             s2 = s1\<lparr>in_flight_messages := (in_flight_messages s1)(message_id \<mapsto> msgobj)\<rparr>;
             s3 = prune_tasks s2;
             s4 = s3\<lparr>tasks := tasks s3 @ [wait_task msgobj]\<rparr>
         in (Inr (message_id, wait_task msgobj), s4)))"

definition send_message_begin ::
  "ctx \<Rightarrow> bytes \<Rightarrow> endpoint \<Rightarrow> (error + int \<times> nat) \<times> endpoint" where
  "send_message_begin c message s =
     (case send_message_enqueue c message s of
        (Inl e, s1) \<Rightarrow> (Inl e, s1)
      | (Inr message_id, s1) \<Rightarrow> send_message_insert message_id s1)"

text \<open>
  The three ways in which \<^verbatim>\<open>await asyncio.wait_for(msgobj.wait_task, timeout)\<close> hands
  control back: the waiter's result, CancelledError, or TimeoutError. The waiter
  (\<^verbatim>\<open>_InFlightMessage._wait\<close>) returns the response stored in its cell. The
  timeout (60 seconds unless the caller gives one) only decides when TimeoutError can
  arrive; time itself is not part of the state.
\<close>

datatype wake = Completed bytes | Cancelled | TimedOut

definition wait_result :: "in_flight_message \<Rightarrow> error + bytes" where
  "wait_result m = (case response m of None \<Rightarrow> Inl AssertionError | Some data \<Rightarrow> Inr data)"

text \<open>
  Lines 229-246, resumed with the frame \<open>(message_id, wait_task)\<close>.
  \<^verbatim>\<open>asyncio.wait_for\<close> hands control back only when the awaited task is done: it
  returns the result of the finished task, and before raising TimeoutError or
  CancelledError it cancels the task and waits until the cancellation is complete.
\<close>

definition wait_for :: "nat \<Rightarrow> endpoint \<Rightarrow> endpoint" where
  "wait_for t s = s\<lparr>task_pool := (task_pool s)(t \<mapsto> Finished)\<rparr>"

definition send_message_end ::
  "int \<times> nat \<Rightarrow> wake \<Rightarrow> endpoint \<Rightarrow> (error + bytes) \<times> endpoint" where
  "send_message_end frame w s =
     (let s0 = wait_for (snd frame) s
      in case w of
           Completed data \<Rightarrow> (Inr data, s0)
         | Cancelled \<Rightarrow> (Inl (CommunicationError []), s0)
         | TimedOut \<Rightarrow>
             (let s1 = cancel_task (snd frame) s0
              in if in_flight_messages s1 (fst frame) \<noteq> None then
                   (Inl (CommunicationError []),
                    s1\<lparr>in_flight_messages := (in_flight_messages s1)(fst frame := None)\<rparr>)
                 else (Inl KeyError, s1)))"

section \<open>close, is_closing, wait_closed\<close>

definition close :: "ctx \<Rightarrow> endpoint \<Rightarrow> (error + unit) \<times> endpoint" where
  "close c s =
     (case check_env c s of
        Some e \<Rightarrow> (Inl e, s)
      | None \<Rightarrow>
          if closing s then (Inr (), s)
          else
            (let s1 = s\<lparr>closing := True\<rparr>;
                 s2 = fold cancel_task (get_live_tasks s1) s1;
                 s3 = s2\<lparr>writer_is_closing := True\<rparr>
             in case handle_raw_message_call s3 of
                  None \<Rightarrow> (Inl AttributeError, s3)
                | Some h \<Rightarrow> (Inr (), s3\<lparr>handle_raw_message_call := None\<rparr>)))"

definition is_closing :: "endpoint \<Rightarrow> bool" where
  "is_closing s = closing s"

text \<open>
  Awaiting \<^verbatim>\<open>asyncio.gather\<close> over the live tasks returns when each of them is done;
  errors of the writer's \<^verbatim>\<open>wait_closed()\<close> are caught and logged.
\<close>

definition gather_tasks :: "nat list \<Rightarrow> endpoint \<Rightarrow> endpoint" where
  "gather_tasks ts s = fold (\<lambda>t s'. s'\<lparr>task_pool := (task_pool s')(t \<mapsto> Finished)\<rparr>) ts s"

definition wait_closed :: "ctx \<Rightarrow> endpoint \<Rightarrow> (error + unit) \<times> endpoint" where
  "wait_closed c s =
     (case check_env c s of
        Some e \<Rightarrow> (Inl e, s)
      | None \<Rightarrow>
          if did_wait_closed s then (Inr (), s)
          else
            (let s1 = s\<lparr>did_wait_closed := True\<rparr>
             in if \<not> closing s1 then (Inl (RuntimeError ''Must be called after close()''), s1)
                else
                  (let s2 = gather_tasks (get_live_tasks s1) s1
                   in if \<not> writer_is_closing s2 then (Inl AssertionError, s2)
                      else (Inr (), s2\<lparr>writer_closed := True\<rparr>))))"

section \<open>Reading responses, answering messages\<close>

text \<open>
  \<^verbatim>\<open>reader.readexactly(n)\<close> on the rest of the stream: IncompleteReadError when the
  stream ends before \<open>n\<close> bytes.
\<close>

definition readexactly :: "nat \<Rightarrow> endpoint \<Rightarrow> (error + bytes) \<times> endpoint" where
  "readexactly n s =
     (if length (reader s) < n then (Inl IncompleteReadError, s\<lparr>reader := []\<rparr>)
      else (Inr (take n (reader s)), s\<lparr>reader := drop n (reader s)\<rparr>))"

definition read_int_16 :: "endpoint \<Rightarrow> (error + int) \<times> endpoint" where
  "read_int_16 s =
     (case readexactly 2 s of
        (Inl e, s1) \<Rightarrow> (Inl e, s1)
      | (Inr bs, s1) \<Rightarrow> (Inr (from_bytes bs), s1))"

definition handle_response_packet :: "endpoint \<Rightarrow> (error + unit) \<times> endpoint" where
  "handle_response_packet s =
     (case read_int_16 s of
        (Inl e, s1) \<Rightarrow> (Inl e, s1)
      | (Inr msgid, s1) \<Rightarrow>
          (case read_int_16 s1 of
             (Inl e, s2) \<Rightarrow> (Inl e, s2)
           | (Inr rsplen, s2) \<Rightarrow>
               (case readexactly (nat rsplen) s2 of
                  (Inl e, s3) \<Rightarrow> (Inl e, s3)
                | (Inr rsp, s3) \<Rightarrow>
                    (case in_flight_messages s3 msgid of
                       None \<Rightarrow> (Inr (), s3)
                     | Some msgobj \<Rightarrow>
                         (case set_response rsp msgobj of
                            Inl e \<Rightarrow> (Inl e, s3)
                          | Inr msgobj' \<Rightarrow>
                              (Inr (),
                               s3\<lparr>in_flight_messages :=
                                    (in_flight_messages s3)(msgid \<mapsto> msgobj')\<rparr>))))))"

text \<open>
  \<^verbatim>\<open>_handle_raw_message\<close>: the user's handler is an opaque function from bytes to
  bytes that may raise; any exception of the call (also the missing attribute after
  \<^verbatim>\<open>close()\<close>) is logged and no response is sent.
\<close>

definition handle_raw_message ::
  "ctx \<Rightarrow> int \<Rightarrow> bytes \<Rightarrow> endpoint \<Rightarrow> (error + unit) \<times> endpoint" where
  "handle_raw_message c message_id message s =
     (case handle_raw_message_call s of
        None \<Rightarrow> (Inr (), s)
      | Some h \<Rightarrow>
          (case h message of
             Inl e \<Rightarrow> (Inr (), s)
           | Inr rsp \<Rightarrow>
               (case encode_packet RESPONSE message_id rsp of
                  Inl e \<Rightarrow> (Inl e, s)
                | Inr data \<Rightarrow> enqueue_outgoing_packet c data s)))"

section \<open>Runs of endpoint operations\<close>

text \<open>
  One step of the endpoint on its scheduling context is one of the operations above;
  a run is a sequence of steps with the results they gave.
\<close>

datatype event =
    Send bytes
  | Resume "int \<times> nat" wake
  | RecvResponse
  | HandleRaw int bytes
  | Close
  | WaitClosed

datatype reply = Frame "int \<times> nat" | Data bytes | Unit

fun step :: "ctx \<Rightarrow> event \<Rightarrow> endpoint \<Rightarrow> (error + reply) \<times> endpoint" where
  "step c (Send message) s =
     (case send_message_begin c message s of (r, s') \<Rightarrow> (map_sum id Frame r, s'))"
| "step c (Resume frame w) s =
     (case send_message_end frame w s of (r, s') \<Rightarrow> (map_sum id Data r, s'))"
| "step c RecvResponse s =
     (case handle_response_packet s of (r, s') \<Rightarrow> (map_sum id (\<lambda>u. Unit) r, s'))"
| "step c (HandleRaw message_id message) s =
     (case handle_raw_message c message_id message s of
        (r, s') \<Rightarrow> (map_sum id (\<lambda>u. Unit) r, s'))"
| "step c Close s =
     (case close c s of (r, s') \<Rightarrow> (map_sum id (\<lambda>u. Unit) r, s'))"
| "step c WaitClosed s =
     (case wait_closed c s of (r, s') \<Rightarrow> (map_sum id (\<lambda>u. Unit) r, s'))"

fun run :: "ctx \<Rightarrow> event list \<Rightarrow> endpoint \<Rightarrow> (error + reply) list \<times> endpoint" where
  "run c [] s = ([], s)"
| "run c (ev # evs) s =
     (case step c ev s of
        (r, s1) \<Rightarrow> (case run c evs s1 of (rs, s2) \<Rightarrow> (r # rs, s2)))"

text \<open>
  The ids returned by the \<^verbatim>\<open>send_message\<close> calls of a run, in order, when every one
  of them is accepted (gets past its checks and reaches the await); \<open>None\<close> when one of
  them raises. The other operations may be interleaved freely.
\<close>

fun sent_ids :: "ctx \<Rightarrow> event list \<Rightarrow> endpoint \<Rightarrow> int list option" where
  "sent_ids c [] s = Some []"
| "sent_ids c (Send message # evs) s =
     (case send_message_begin c message s of
        (Inl e, s1) \<Rightarrow> None
      | (Inr frame, s1) \<Rightarrow> map_option (Cons (fst frame)) (sent_ids c evs s1))"
| "sent_ids c (ev # evs) s = sent_ids c evs (snd (step c ev s))"

section \<open>The wire layout and the ordering property as the specification words them\<close>

text \<open>A u16 in big-endian order: the high byte, then the low byte.\<close>

definition u16_be :: "int \<Rightarrow> bytes" where
  "u16_be n = [of_int (n div 256), of_int (n mod 256)]"

text \<open>Tag, u16 message id, u16 payload length, payload.\<close>

definition packet_layout :: "byte \<Rightarrow> int \<Rightarrow> bytes \<Rightarrow> bytes" where
  "packet_layout tag message_id payload =
     tag # u16_be message_id @ u16_be (int (length payload)) @ payload"

text \<open>
  "The table insert happens before the enqueue": at the program point right after the
  enqueue of lines 209-212, the table holds an entry for the allocated id.
\<close>

definition insert_before_enqueue :: "ctx \<Rightarrow> bytes \<Rightarrow> endpoint \<Rightarrow> bool" where
  "insert_before_enqueue c message s =
     (case send_message_enqueue c message s of
        (Inl e, s1) \<Rightarrow> True
      | (Inr message_id, s1) \<Rightarrow> in_flight_messages s1 message_id \<noteq> None)"


fun is_communication_error :: "error + 'a \<Rightarrow> bool" where
  "is_communication_error (Inl (CommunicationError msg)) = True"
| "is_communication_error r = False"

section \<open>Example endpoints\<close>

definition example_ctx :: ctx where
  "example_ctx = \<lparr> current_thread = 1, running_loop = 1 \<rparr>"

definition echo :: "bytes \<Rightarrow> error + bytes" where
  "echo data = Inr data"

text \<open>A new endpoint with nothing to read.\<close>

definition fresh :: endpoint where
  "fresh = init echo [] example_ctx"

text \<open>A new endpoint whose stream holds a RESPONSE body for id 65530: length 3, "ABC".\<close>

definition fresh_with_response :: endpoint where
  "fresh_with_response = init echo [0xFF, 0xFA, 0x00, 0x03, 0x41, 0x42, 0x43] example_ctx"

text \<open>The new endpoint after \<^verbatim>\<open>close()\<close>.\<close>

definition closed_endpoint :: endpoint where
  "closed_endpoint = snd (close example_ctx fresh)"


definition abc :: bytes where
  "abc = [0x61, 0x62, 0x63]"

definition oversized :: bytes where
  "oversized = replicate 65536 0"

section \<open>Facts about the codec\<close>

lemma be_digits_2: "be_digits 2 n = [of_nat (n div 256 mod 256), of_nat (n mod 256)]"
  by (simp add: numeral_2_eq_2)

lemma to_bytes_1: "0 \<le> v \<Longrightarrow> v < 256 \<Longrightarrow> to_bytes v (Suc 0) = Inr [of_int v]"
  by (cases v) (simp_all add: to_bytes_def)

lemma to_bytes_2:
  assumes "0 \<le> v" and "v < 65536"
  shows "to_bytes v 2 = Inr (u16_be v)"
proof -
  obtain n where v: "v = int n" using assms(1) nonneg_int_cases by blast
  have n: "n < 65536" using assms(2) v by simp
  then have "n div 256 < 256" by simp
  then have "n div 256 mod 256 = n div 256" by simp
  moreover have "int n div 256 = int (n div 256)" "int n mod 256 = int (n mod 256)"
    by (simp_all add: zdiv_int zmod_int)
  ultimately show ?thesis
    using n by (simp add: v to_bytes_def be_digits_2 u16_be_def)
qed

lemma to_bytes_2_ok: "to_bytes v 2 = Inr bs \<Longrightarrow> 0 \<le> v \<and> v < 65536"
  by (auto simp: to_bytes_def split: if_splits)

lemma u16_be_length: "u16_be (int n) = [of_nat (n div 256), of_nat (n mod 256)]"
proof -
  have "int n div 256 = int (n div 256)" "int n mod 256 = int (n mod 256)"
    by (simp_all add: zdiv_int zmod_int)
  then show ?thesis by (simp add: u16_be_def)
qed

lemma encode_packet_layout:
  assumes "0 \<le> message_id" "message_id < 65536" "length payload \<le> 65535"
  shows "encode_packet t message_id payload =
           Inr (packet_layout (of_int (packet_type_value t)) message_id payload)"
proof -
  have "0 \<le> packet_type_value t \<and> packet_type_value t < 256" by (cases t) simp_all
  then show ?thesis
    using assms by (simp add: encode_packet_def to_bytes_1 to_bytes_2 packet_layout_def)
qed

lemma encode_packet_ok:
  "encode_packet t message_id payload = Inr data \<Longrightarrow> 0 \<le> message_id \<and> message_id < 65536"
  by (auto simp: encode_packet_def split: sum.splits dest: to_bytes_2_ok)

text \<open>What \<^verbatim>\<open>_read_int_16\<close> reads back from a big-endian u16 is the value written.\<close>

lemma from_bytes_u16_be:
  assumes "0 \<le> v" and "v < 65536"
  shows "from_bytes (u16_be v) = v"
proof -
  have "0 \<le> v div 256" "v div 256 < 256" using assms by auto
  then have "uint (word_of_int (v div 256) :: byte) = v div 256"
    by (simp add: uint_word_of_int)
  moreover have "uint (word_of_int (v mod 256) :: byte) = v mod 256"
    by (simp add: uint_word_of_int)
  ultimately show ?thesis by (simp add: from_bytes_def u16_be_def)
qed

section \<open>Facts about the operations\<close>

lemma check_env_None:
  "check_env c s = None \<longleftrightarrow> current_thread c = thread s \<and> running_loop c = event_loop s"
  by (simp add: check_env_def)

text \<open>
  An accepted send, spelled out: the state after the enqueue, and the state at the
  await.
\<close>

lemma send_message_enqueue_accepted:
  assumes "check_env c s = None" "\<not> closing s" "length message \<le> 65535"
    and "0 \<le> next_message_id s" "next_message_id s < 65536"
  shows "send_message_enqueue c message s =
           (Inr (next_message_id s),
            s\<lparr>next_message_id := (next_message_id s + 1) mod 65536,
              out_packets := out_packets s @ [packet_layout 2 (next_message_id s) message],
              have_out_packets := True\<rparr>)"
proof -
  have env: "check_env c (s\<lparr>next_message_id := (next_message_id s + 1) mod 65536\<rparr>) = None"
    using assms(1) by (simp add: check_env_None)
  show ?thesis
    using assms env
    by (simp add: send_message_enqueue_def encode_packet_layout enqueue_outgoing_packet_def
          Let_def)
qed

lemma send_message_begin_accepted:
  assumes "check_env c s = None" "\<not> closing s" "length message \<le> 65535"
    and "0 \<le> next_message_id s" "next_message_id s < 65536"
    and "in_flight_messages s (next_message_id s) = None"
  shows "send_message_begin c message s =
           (Inr (next_message_id s, next_task s),
            s\<lparr>next_message_id := (next_message_id s + 1) mod 65536,
              out_packets := out_packets s @ [packet_layout 2 (next_message_id s) message],
              have_out_packets := True,
              task_pool := (task_pool s)(next_task s \<mapsto> Pending),
              next_task := Suc (next_task s),
              in_flight_messages := (in_flight_messages s)(next_message_id s \<mapsto>
                 \<lparr>response = None, got_response = False, wait_task = next_task s\<rparr>),
              tasks := filter (\<lambda>t. t = next_task s \<or> task_live s t) (tasks s) @ [next_task s]\<rparr>)"
proof -
  have "task_live (s\<lparr>next_message_id := n, out_packets := ps, have_out_packets := b,
            task_pool := (task_pool s)(next_task s \<mapsto> Pending), next_task := k,
            in_flight_messages := m\<rparr>) =
        (\<lambda>t. t = next_task s \<or> task_live s t)" for n ps b k m
    by (auto simp: task_live_def fun_eq_iff)
  then show ?thesis
    using assms
    by (simp add: send_message_begin_def send_message_enqueue_accepted send_message_insert_def
          new_in_flight_message_def prune_tasks_def)
qed

lemma send_message_begin_Inr:
  assumes "send_message_begin c message s = (Inr frame, s1)"
  shows "fst frame = next_message_id s \<and> 0 \<le> next_message_id s \<and> next_message_id s < 65536
         \<and> next_message_id s1 = (next_message_id s + 1) mod 65536"
  using assms
  by (auto simp: send_message_begin_def send_message_enqueue_def send_message_insert_def
        enqueue_outgoing_packet_def new_in_flight_message_def prune_tasks_def Let_def
        split: option.splits sum.splits prod.splits if_splits dest: encode_packet_ok)

text \<open>
  An entry left in the table makes the send that reaches its id again fail the
  assertion of line 215.
\<close>

lemma stale_entry_trips_assertion:
  assumes "check_env c s = None" "\<not> closing s" "length message \<le> 65535"
    and "0 \<le> next_message_id s" "next_message_id s < 65536"
    and "in_flight_messages s (next_message_id s) \<noteq> None"
  shows "fst (send_message_begin c message s) = Inl AssertionError"
  using assms
  by (auto simp: send_message_begin_def send_message_enqueue_accepted send_message_insert_def)

subsection \<open>Fields that an operation leaves alone\<close>

lemma fold_cancel_task_frame:
  "next_message_id (fold cancel_task ts s) = next_message_id s
   \<and> did_wait_closed (fold cancel_task ts s) = did_wait_closed s
   \<and> thread (fold cancel_task ts s) = thread s
   \<and> event_loop (fold cancel_task ts s) = event_loop s
   \<and> closing (fold cancel_task ts s) = closing s"
  by (induction ts arbitrary: s)
     (auto simp: cancel_task_def split: option.splits task_state.splits)

lemma gather_tasks_frame:
  "next_message_id (gather_tasks ts s) = next_message_id s
   \<and> did_wait_closed (gather_tasks ts s) = did_wait_closed s
   \<and> thread (gather_tasks ts s) = thread s
   \<and> event_loop (gather_tasks ts s) = event_loop s
   \<and> closing (gather_tasks ts s) = closing s"
  unfolding gather_tasks_def by (induction ts arbitrary: s) auto



lemma send_message_end_frame:
  "next_message_id (snd (send_message_end frame w s)) = next_message_id s
   \<and> did_wait_closed (snd (send_message_end frame w s)) = did_wait_closed s
   \<and> thread (snd (send_message_end frame w s)) = thread s
   \<and> event_loop (snd (send_message_end frame w s)) = event_loop s"
  by (auto simp: send_message_end_def wait_for_def cancel_task_def Let_def
        split: wake.splits option.splits task_state.splits)

lemma handle_response_packet_frame:
  "next_message_id (snd (handle_response_packet s)) = next_message_id s
   \<and> did_wait_closed (snd (handle_response_packet s)) = did_wait_closed s
   \<and> thread (snd (handle_response_packet s)) = thread s
   \<and> event_loop (snd (handle_response_packet s)) = event_loop s"
  by (auto simp: handle_response_packet_def read_int_16_def readexactly_def
        split: option.splits sum.splits prod.splits)

lemma handle_raw_message_frame:
  "next_message_id (snd (handle_raw_message c i m s)) = next_message_id s
   \<and> did_wait_closed (snd (handle_raw_message c i m s)) = did_wait_closed s
   \<and> thread (snd (handle_raw_message c i m s)) = thread s
   \<and> event_loop (snd (handle_raw_message c i m s)) = event_loop s"
  by (auto simp: handle_raw_message_def enqueue_outgoing_packet_def
        split: option.splits sum.splits prod.splits)

lemma close_frame:
  "next_message_id (snd (close c s)) = next_message_id s
   \<and> did_wait_closed (snd (close c s)) = did_wait_closed s
   \<and> thread (snd (close c s)) = thread s
   \<and> event_loop (snd (close c s)) = event_loop s"
  by (auto simp: close_def Let_def fold_cancel_task_frame split: option.splits)

lemma wait_closed_frame:
  "next_message_id (snd (wait_closed c s)) = next_message_id s
   \<and> (did_wait_closed s \<longrightarrow> did_wait_closed (snd (wait_closed c s)))
   \<and> thread (snd (wait_closed c s)) = thread s
   \<and> event_loop (snd (wait_closed c s)) = event_loop s"
  by (auto simp: wait_closed_def Let_def gather_tasks_frame split: option.splits)


lemma step_next_message_id:
  assumes "\<And>m. ev \<noteq> Send m"
  shows "next_message_id (snd (step c ev s)) = next_message_id s"
proof (cases ev)
  case (Send m)
  with assms show ?thesis by blast
qed (simp_all add: split_beta send_message_end_frame
        handle_response_packet_frame handle_raw_message_frame close_frame wait_closed_frame)


subsection \<open>The id counter\<close>

lemma send_message_begin_counter:
  "next_message_id (snd (send_message_begin c message s)) = next_message_id s
   \<or> next_message_id (snd (send_message_begin c message s)) = (next_message_id s + 1) mod 65536"
  by (auto simp: send_message_begin_def send_message_enqueue_def send_message_insert_def
        enqueue_outgoing_packet_def new_in_flight_message_def prune_tasks_def Let_def
        split: option.splits sum.splits prod.splits)

text \<open>The counter of every endpoint stays a u16.\<close>

lemma step_counter_range:
  assumes "0 \<le> next_message_id s \<and> next_message_id s < 65536"
  shows "0 \<le> next_message_id (snd (step c ev s)) \<and> next_message_id (snd (step c ev s)) < 65536"
proof (cases ev)
  case (Send m)
  have "0 \<le> (next_message_id s + 1) mod 65536" "(next_message_id s + 1) mod 65536 < 65536"
    by simp_all
  with assms send_message_begin_counter [of c m s] Send show ?thesis
    by (auto simp: split_beta)
qed (use assms in \<open>simp_all add: split_beta send_message_end_frame
        handle_response_packet_frame handle_raw_message_frame close_frame wait_closed_frame\<close>)

lemma run_counter_range:
  "0 \<le> next_message_id (snd (run c evs (init handler rd c0)))
   \<and> next_message_id (snd (run c evs (init handler rd c0))) < 65536"
proof -
  have "0 \<le> next_message_id s \<and> next_message_id s < 65536 \<Longrightarrow>
        0 \<le> next_message_id (snd (run c evs s)) \<and> next_message_id (snd (run c evs s)) < 65536"
    for s
  proof (induction evs arbitrary: s)
    case Nil
    then show ?case by simp
  next
    case (Cons ev evs)
    from Cons.IH [OF step_counter_range [OF Cons.prems, of c ev]]
    show ?case by (simp add: split_beta)
  qed
  then show ?thesis by (simp add: init_def)
qed

lemma id_sequence_Suc:
  "map (\<lambda>k. (n + int k) mod 65536) [0..<Suc m] =
     n mod 65536 # map (\<lambda>k. ((n + 1) mod 65536 + int k) mod 65536) [0..<m]"
proof -
  have "[0..<Suc m] = 0 # map Suc [0..<m]"
    by (simp add: upt_conv_Cons map_Suc_upt del: upt_Suc)
  moreover have "\<And>k. (n + int (Suc k)) mod 65536 = ((n + 1) mod 65536 + int k) mod 65536"
    by (simp add: mod_add_left_eq add.assoc)
  ultimately show ?thesis by (simp add: comp_def del: upt_Suc)
qed

lemma sent_ids_other:
  assumes "\<And>m. ev \<noteq> Send m"
  shows "sent_ids c (ev # evs) s = sent_ids c evs (snd (step c ev s))"
proof (cases ev)
  case (Send m)
  with assms show ?thesis by blast
qed simp_all

lemma sent_ids_sequence:
  "sent_ids c evs s = Some ids \<Longrightarrow>
   ids = map (\<lambda>k. (next_message_id s + int k) mod 65536) [0..<length ids]"
proof (induction evs arbitrary: s ids)
  case Nil
  then show ?case by simp
next
  case (Cons ev evs)
  show ?case
  proof (cases "\<exists>m. ev = Send m")
    case True
    then obtain message where ev: "ev = Send message" by blast
    from Cons.prems ev obtain frame s1 rest
      where b: "send_message_begin c message s = (Inr frame, s1)"
        and r: "sent_ids c evs s1 = Some rest" and ids: "ids = fst frame # rest"
      by (auto split: sum.splits prod.splits)
    from send_message_begin_Inr [OF b]
    have f: "fst frame = next_message_id s" "0 \<le> next_message_id s" "next_message_id s < 65536"
      "next_message_id s1 = (next_message_id s + 1) mod 65536" by simp_all
    have "rest = map (\<lambda>k. (next_message_id s1 + int k) mod 65536) [0..<length rest]"
      using Cons.IH [OF r] .
    then have "rest =
        map (\<lambda>k. ((next_message_id s + 1) mod 65536 + int k) mod 65536) [0..<length rest]"
      by (simp only: f)
    moreover have "next_message_id s mod 65536 = fst frame" using f by simp
    ultimately have "map (\<lambda>k. (next_message_id s + int k) mod 65536) [0..<Suc (length rest)] =
        fst frame # rest"
      using id_sequence_Suc [of "next_message_id s" "length rest"] by simp
    then show ?thesis by (simp add: ids del: upt_Suc)
  next
    case False
    then have other: "\<And>m. ev \<noteq> Send m" by blast
    have "sent_ids c evs (snd (step c ev s)) = Some ids"
      using Cons.prems sent_ids_other [OF other] by simp
    from Cons.IH [OF this] show ?thesis
      by (simp add: step_next_message_id [OF other])
  qed
qed

subsection \<open>The example endpoints\<close>

lemmas endpoint_defs =
  send_message_begin_def send_message_enqueue_def send_message_insert_def
  send_message_end_def wait_for_def enqueue_outgoing_packet_def new_in_flight_message_def
  prune_tasks_def get_live_tasks_def task_live_def cancel_task_def check_env_def
  close_def wait_closed_def gather_tasks_def handle_response_packet_def
  read_int_16_def readexactly_def set_response_def handle_raw_message_def
  from_bytes_def packet_layout_def u16_be_def

lemma check_env_example: "check_env example_ctx fresh = None"
  by (simp add: check_env_def fresh_def init_def example_ctx_def)

lemma fresh_fields:
  "\<not> closing fresh" "next_message_id fresh = 65530" "in_flight_messages fresh = Map.empty"
  "out_packets fresh = []" "next_task fresh = 0" "handle_raw_message_call fresh = Some echo"
  "\<not> did_wait_closed fresh" "tasks fresh = []" "reader fresh = []"
  by (simp_all add: fresh_def init_def)

lemma fresh_with_response_fields:
  "check_env example_ctx fresh_with_response = None" "\<not> closing fresh_with_response"
  "next_message_id fresh_with_response = 65530"
  "in_flight_messages fresh_with_response = Map.empty"
  "out_packets fresh_with_response = []" "next_task fresh_with_response = 0"
  "tasks fresh_with_response = []" "task_pool fresh_with_response = Map.empty"
  "reader fresh_with_response = [0xFF, 0xFA, 0x00, 0x03, 0x41, 0x42, 0x43]"
  by (simp_all add: fresh_with_response_def init_def check_env_def example_ctx_def)

lemma closed_endpoint_eq:
  "closed_endpoint =
     fresh\<lparr>closing := True, writer_is_closing := True, handle_raw_message_call := None\<rparr>"
  by (simp add: closed_endpoint_def close_def check_env_example get_live_tasks_def)
     (simp add: fresh_def init_def)

lemma check_env_closed: "check_env example_ctx closed_endpoint = None"
  by (simp add: closed_endpoint_eq check_env_def fresh_def init_def example_ctx_def)

lemma closing_closed: "closing closed_endpoint"
  by (simp add: closed_endpoint_eq)




lemma length_abc: "length abc = 3"
  by (simp add: abc_def)

lemma encode_packet_example:
  "0 \<le> i \<Longrightarrow> i < 65536 \<Longrightarrow> encode_packet MESSAGE i abc = Inr (packet_layout 2 i abc)"
  by (simp add: encode_packet_layout length_abc)

lemma sent_ids_example:
  "sent_ids example_ctx
     [Send abc, Send abc, Send abc, Send abc, Send abc, Send abc,
      Resume (65530, 0) TimedOut, Send abc] fresh =
   Some [65530, 65531, 65532, 65533, 65534, 65535, 0]"
  by (simp add: fresh_def init_def example_ctx_def endpoint_defs encode_packet_example
        length_abc)

section \<open>The in-flight table\<close>

text \<open>
  C1. The claim: the table holds an entry for an id exactly while a \<^verbatim>\<open>send_message\<close>
  call is awaiting the response for it, so the entry is gone when the call returns or
  raises. The code at the claim's own scenario: a message is sent with id 65530, the
  RESPONSE for 65530 is read and stored, the waiter returns it and \<^verbatim>\<open>send_message\<close>
  returns it to the caller. The entry for 65530 is still in the table after the call
  has returned: only the timeout handler (line 243) deletes an entry.
\<close>

theorem answered_message_stays_in_table:
  "fst (run example_ctx
          [Send abc, RecvResponse, Resume (65530, 0) (Completed [0x41, 0x42, 0x43])]
          fresh_with_response) =
     [Inr (Frame (65530, 0)), Inr Unit, Inr (Data [0x41, 0x42, 0x43])]
   \<and> in_flight_messages
        (snd (run example_ctx
                [Send abc, RecvResponse, Resume (65530, 0) (Completed [0x41, 0x42, 0x43])]
                fresh_with_response)) 65530 =
       Some \<lparr>response = Some [0x41, 0x42, 0x43], got_response = True, wait_task = 0\<rparr>
   \<and> wait_result \<lparr>response = Some [0x41, 0x42, 0x43], got_response = True, wait_task = 0\<rparr> =
       Inr [0x41, 0x42, 0x43]"
  by (simp add: send_message_begin_accepted fresh_with_response_fields length_abc
        handle_response_packet_def read_int_16_def readexactly_def from_bytes_def
        set_response_def send_message_end_def wait_for_def wait_result_def)

text \<open>
  C3. The claim: a cancelled \<^verbatim>\<open>send_message\<close> raises the communication error after
  the cleanup of the timeout path, which drops the table entry. The code: the call
  with id 65530 resumed by CancelledError raises the communication error and the
  entry for 65530 is still in the table; the same call resumed by TimeoutError raises
  the same error and the entry is gone.
\<close>

theorem cancelled_message_stays_in_table:
  "fst (run example_ctx [Send abc, Resume (65530, 0) Cancelled] fresh) =
     [Inr (Frame (65530, 0)), Inl (CommunicationError [])]
   \<and> in_flight_messages (snd (run example_ctx [Send abc, Resume (65530, 0) Cancelled] fresh))
        65530 = Some \<lparr>response = None, got_response = False, wait_task = 0\<rparr>
   \<and> fst (run example_ctx [Send abc, Resume (65530, 0) TimedOut] fresh) =
     [Inr (Frame (65530, 0)), Inl (CommunicationError [])]
   \<and> in_flight_messages (snd (run example_ctx [Send abc, Resume (65530, 0) TimedOut] fresh))
        65530 = None"
  by (simp add: send_message_begin_accepted check_env_example fresh_fields length_abc
        send_message_end_def wait_for_def cancel_task_def)

section \<open>Order of enqueue and insert\<close>

text \<open>
  C2, as stated: in \<^verbatim>\<open>send_message\<close> the table insert for the allocated id comes
  before the enqueue of the MESSAGE packet. On a new endpoint sending "abc" it does
  not: right after the enqueue the table has no entry for id 65530.
\<close>

theorem insert_before_enqueue_counterexample:
  "\<not> insert_before_enqueue example_ctx abc fresh"
proof -
  have "send_message_enqueue example_ctx abc fresh =
          (Inr 65530, fresh\<lparr>next_message_id := 65531,
             out_packets := [packet_layout 2 65530 abc], have_out_packets := True\<rparr>)"
    using send_message_enqueue_accepted [of example_ctx fresh abc]
    by (simp add: check_env_example) (simp add: fresh_def init_def abc_def)
  then show ?thesis
    by (simp add: insert_before_enqueue_def) (simp add: fresh_def init_def)
qed

text \<open>
  C2, amended. For every accepted message, \<^verbatim>\<open>send_message\<close> enqueues the MESSAGE
  packet first and inserts the table entry for the allocated id after it: right after
  the enqueue the packet is last in the outgoing queue and the id has no entry yet.
  Both happen before the call first suspends: when it reaches its await, the packet is
  in the queue and the id has a pending entry, so a response for the id cannot be
  handled before the request is enqueued and the entry is in place.
\<close>

theorem enqueue_before_insert:
  assumes "check_env c s = None" "\<not> closing s" "length message \<le> 65535"
    and "0 \<le> next_message_id s" "next_message_id s < 65536"
    and "in_flight_messages s (next_message_id s) = None"
  shows "fst (send_message_enqueue c message s) = Inr (next_message_id s)
       \<and> out_packets (snd (send_message_enqueue c message s)) =
           out_packets s @ [packet_layout 2 (next_message_id s) message]
       \<and> in_flight_messages (snd (send_message_enqueue c message s)) (next_message_id s) = None
       \<and> fst (send_message_begin c message s) = Inr (next_message_id s, next_task s)
       \<and> out_packets (snd (send_message_begin c message s)) =
           out_packets s @ [packet_layout 2 (next_message_id s) message]
       \<and> in_flight_messages (snd (send_message_begin c message s)) (next_message_id s) =
           Some \<lparr>response = None, got_response = False, wait_task = next_task s\<rparr>"
  using assms
  by (simp add: send_message_enqueue_accepted send_message_begin_accepted)

theorem enqueue_before_insert_witness:
  "check_env example_ctx fresh = None \<and> \<not> closing fresh \<and> length abc \<le> 65535
   \<and> 0 \<le> next_message_id fresh \<and> next_message_id fresh < 65536
   \<and> in_flight_messages fresh (next_message_id fresh) = None
   \<and> fst (send_message_enqueue example_ctx abc fresh) = Inr 65530
   \<and> out_packets (snd (send_message_enqueue example_ctx abc fresh)) =
        [[2, 0xFF, 0xFA, 0, 3, 0x61, 0x62, 0x63]]
   \<and> in_flight_messages (snd (send_message_enqueue example_ctx abc fresh)) 65530 = None
   \<and> fst (send_message_begin example_ctx abc fresh) = Inr (65530, 0)
   \<and> out_packets (snd (send_message_begin example_ctx abc fresh)) =
        [[2, 0xFF, 0xFA, 0, 3, 0x61, 0x62, 0x63]]
   \<and> in_flight_messages (snd (send_message_begin example_ctx abc fresh)) 65530 =
        Some \<lparr>response = None, got_response = False, wait_task = 0\<rparr>"
  using enqueue_before_insert [of example_ctx fresh abc]
  by (simp add: check_env_example fresh_fields length_abc)
     (simp add: packet_layout_def u16_be_def abc_def)

section \<open>The did-wait-closed latch\<close>




section \<open>Rejected sends\<close>

text \<open>
  C6. For every message longer than 65535 bytes, \<^verbatim>\<open>send_message\<close> called on the
  endpoint's own scheduling context fails at once with the invalid-argument error
  (\<^verbatim>\<open>RuntimeError('Message cannot be larger than 65535 bytes')\<close>) and returns the
  endpoint state it was given: the id counter, the in-flight table and the outgoing
  queue are unchanged and no packet is enqueued.
\<close>

theorem send_message_oversize_rejected:
  assumes "check_env c s = None" and "length message > 65535"
  shows "send_message_begin c message s =
           (Inl (RuntimeError ''Message cannot be larger than 65535 bytes''), s)"
  using assms by (simp add: send_message_begin_def send_message_enqueue_def)

theorem send_message_oversize_rejected_witness:
  "check_env example_ctx fresh = None \<and> length oversized > 65535 \<and>
   send_message_begin example_ctx oversized fresh =
     (Inl (RuntimeError ''Message cannot be larger than 65535 bytes''), fresh)"
  using send_message_oversize_rejected [of example_ctx fresh oversized]
  by (simp add: check_env_example oversized_def)

text \<open>
  C5, as stated: every byte sequence sent while the endpoint is closing fails with a
  communication error. It does not hold for a message of 65536 bytes: the size check of
  line 198 comes first and raises the RuntimeError.
\<close>

theorem send_message_closing_oversize_counterexample:
  "closing closed_endpoint \<and>
   \<not> is_communication_error (fst (send_message_begin example_ctx oversized closed_endpoint))"
  by (simp add: send_message_begin_def send_message_enqueue_def check_env_closed
        closing_closed oversized_def)

text \<open>
  C5, amended. For every byte sequence of at most 65535 bytes passed to
  \<^verbatim>\<open>send_message\<close> while the endpoint is closing, the call fails at once with the
  communication error "Endpoint is closed" and the endpoint state is the one it was
  given: no id is allocated, no packet is enqueued, no table entry is created.
\<close>

theorem send_message_closing_rejected:
  assumes "check_env c s = None" and "closing s" and "length message \<le> 65535"
  shows "send_message_begin c message s = (Inl (CommunicationError ''Endpoint is closed''), s)"
  using assms by (simp add: send_message_begin_def send_message_enqueue_def)

theorem send_message_closing_rejected_witness:
  "check_env example_ctx closed_endpoint = None \<and> closing closed_endpoint \<and>
   length abc \<le> 65535 \<and>
   send_message_begin example_ctx abc closed_endpoint =
     (Inl (CommunicationError ''Endpoint is closed''), closed_endpoint)"
  using send_message_closing_rejected [of example_ctx closed_endpoint abc]
  by (simp add: check_env_closed closing_closed abc_def)

text \<open>
  C10. The size check precedes the closing check: a message longer than 65535 bytes
  gets the invalid-argument error whatever the closing flag is, and on a closing
  endpoint the call raises the communication error exactly when the message has 65535
  bytes or fewer.
\<close>

theorem send_message_size_check_first:
  assumes "check_env c s = None"
  shows "(length message > 65535 \<longrightarrow>
            send_message_begin c message s =
              (Inl (RuntimeError ''Message cannot be larger than 65535 bytes''), s))
       \<and> (closing s \<longrightarrow>
            (fst (send_message_begin c message s) = Inl (CommunicationError ''Endpoint is closed'')
             \<longleftrightarrow> length message \<le> 65535))"
  using assms by (simp add: send_message_begin_def send_message_enqueue_def)

theorem send_message_size_check_first_witness:
  "check_env example_ctx closed_endpoint = None \<and> length oversized > 65535 \<and>
   closing closed_endpoint \<and>
   send_message_begin example_ctx oversized closed_endpoint =
     (Inl (RuntimeError ''Message cannot be larger than 65535 bytes''), closed_endpoint) \<and>
   fst (send_message_begin example_ctx oversized closed_endpoint)
     \<noteq> Inl (CommunicationError ''Endpoint is closed'')"
  using send_message_size_check_first [of example_ctx closed_endpoint oversized]
  by (simp add: check_env_closed closing_closed oversized_def)

section \<open>Message ids\<close>

text \<open>
  C7. For every endpoint and every run of its operations in which each
  \<^verbatim>\<open>send_message\<close> call is accepted, the ids the calls get are, in order,
  \<open>(65530 + k) mod 65536\<close> for \<open>k = 0, \<dots>, N - 1\<close>, where \<open>N\<close> is the number of sends
  and 65530 is the counter a new endpoint starts with; so the seventh id is 0.
\<close>

theorem message_ids_wrap:
  assumes "sent_ids c evs (init handler rd c0) = Some ids"
  shows "ids = map (\<lambda>k. (65530 + int k) mod 65536) [0..<length ids]
       \<and> (6 < length ids \<longrightarrow> ids ! 6 = 0)"
proof -
  have "ids = map (\<lambda>k. (next_message_id (init handler rd c0) + int k) mod 65536) [0..<length ids]"
    using assms by (rule sent_ids_sequence)
  then have seq: "ids = map (\<lambda>k. (65530 + int k) mod 65536) [0..<length ids]"
    by (simp add: init_def)
  have "ids ! 6 = 0" if "6 < length ids"
  proof -
    have "ids ! 6 = map (\<lambda>k. (65530 + int k) mod 65536) [0..<length ids] ! 6"
      using seq by simp
    also have "\<dots> = (65530 + int 6) mod 65536"
      using that by (simp only: nth_map_upt) simp
    finally show ?thesis by simp
  qed
  with seq show ?thesis by blast
qed

theorem message_ids_wrap_witness:
  "sent_ids example_ctx
     [Send abc, Send abc, Send abc, Send abc, Send abc, Send abc,
      Resume (65530, 0) TimedOut, Send abc] fresh =
     Some [65530, 65531, 65532, 65533, 65534, 65535, 0]
   \<and> [65530, 65531, 65532, 65533, 65534, 65535, 0] =
       map (\<lambda>k. (65530 + int k) mod 65536)
         [0..<length [65530, 65531, 65532, 65533, 65534, 65535, 0::int]]
   \<and> 6 < length [65530, 65531, 65532, 65533, 65534, 65535, 0::int]
   \<and> [65530, 65531, 65532, 65533, 65534, 65535, 0::int] ! 6 = 0"
proof -
  have e: "sent_ids example_ctx
     [Send abc, Send abc, Send abc, Send abc, Send abc, Send abc,
      Resume (65530, 0) TimedOut, Send abc] (init echo [] example_ctx) =
     Some [65530, 65531, 65532, 65533, 65534, 65535, 0]"
    using sent_ids_example by (simp only: fresh_def)
  have "6 < length [65530, 65531, 65532, 65533, 65534, 65535, 0::int]" by simp
  with message_ids_wrap [OF e] sent_ids_example show ?thesis by blast
qed

section \<open>Wire layout\<close>

text \<open>
  C8. For every accepted message payload, the packet that \<^verbatim>\<open>send_message\<close> enqueues
  is the tag byte 2, the message id as a big-endian u16 (high byte, low byte), the
  payload length as a big-endian u16, then the payload; the packet that
  \<^verbatim>\<open>_handle_raw_message\<close> enqueues for a handler result of at most 65535 bytes has the
  same layout with tag byte 3 and the id of the message it answers.
\<close>

theorem packets_follow_layout:
  assumes "check_env c s = None" "\<not> closing s" "length message \<le> 65535"
    and "0 \<le> next_message_id s" "next_message_id s < 65536"
    and "handle_raw_message_call s = Some h" "h request = Inr rsp" "length rsp \<le> 65535"
    and "0 \<le> message_id" "message_id < 65536"
  shows "out_packets (snd (send_message_enqueue c message s)) =
           out_packets s @
             [[2, of_int (next_message_id s div 256), of_int (next_message_id s mod 256),
               of_nat (length message div 256), of_nat (length message mod 256)] @ message]
       \<and> out_packets (snd (handle_raw_message c message_id request s)) =
           out_packets s @
             [[3, of_int (message_id div 256), of_int (message_id mod 256),
               of_nat (length rsp div 256), of_nat (length rsp mod 256)] @ rsp]"
proof -
  have "out_packets (snd (send_message_enqueue c message s)) =
          out_packets s @ [packet_layout 2 (next_message_id s) message]"
    using assms by (simp add: send_message_enqueue_accepted)
  moreover have "out_packets (snd (handle_raw_message c message_id request s)) =
          out_packets s @ [packet_layout 3 message_id rsp]"
    using assms by (simp add: handle_raw_message_def encode_packet_layout enqueue_outgoing_packet_def)
  ultimately show ?thesis
    by (simp add: packet_layout_def u16_be_length) (simp add: u16_be_def)
qed

theorem packets_follow_layout_witness:
  "check_env example_ctx fresh = None \<and> \<not> closing fresh \<and> length abc \<le> 65535
   \<and> 0 \<le> next_message_id fresh \<and> next_message_id fresh < 65536
   \<and> handle_raw_message_call fresh = Some echo \<and> echo abc = Inr abc
   \<and> (0::int) \<le> 65530 \<and> (65530::int) < 65536
   \<and> out_packets (snd (send_message_enqueue example_ctx abc fresh)) =
        [[2, 0xFF, 0xFA, 0, 3, 0x61, 0x62, 0x63]]
   \<and> out_packets (snd (handle_raw_message example_ctx 65530 abc fresh)) =
        [[3, 0xFF, 0xFA, 0, 3, 0x61, 0x62, 0x63]]"
  using packets_follow_layout [of example_ctx fresh abc echo abc abc 65530]
  by (simp add: check_env_example fresh_fields length_abc echo_def)
     (simp add: abc_def)

section \<open>Late responses\<close>

text \<open>
  C9. For every RESPONSE packet (id bytes, length bytes, payload, all present in the
  stream) whose id has no entry in the in-flight table, \<^verbatim>\<open>_handle_response_packet\<close>
  returns normally and the endpoint state is the one before but for the bytes of the
  packet, which are consumed: no error, no other field changes (the closing flag, the
  table and the queue are as before), and the reader goes on with the next packet.
\<close>

theorem late_response_ignored:
  assumes "reader s = i1 # i2 # l1 # l2 # rest"
    and "nat (from_bytes [l1, l2]) \<le> length rest"
    and "in_flight_messages s (from_bytes [i1, i2]) = None"
  shows "handle_response_packet s =
           (Inr (), s\<lparr>reader := drop (nat (from_bytes [l1, l2])) rest\<rparr>)"
  using assms
  by (simp add: handle_response_packet_def read_int_16_def readexactly_def)

theorem late_response_ignored_witness:
  "reader fresh_with_response = 0xFF # 0xFA # 0x00 # 0x03 # [0x41, 0x42, 0x43]
   \<and> nat (from_bytes [0x00, 0x03]) \<le> length [0x41, 0x42, 0x43 :: byte]
   \<and> in_flight_messages fresh_with_response (from_bytes [0xFF, 0xFA]) = None
   \<and> from_bytes [0xFF, 0xFA] = 65530
   \<and> handle_response_packet fresh_with_response =
       (Inr (), fresh_with_response\<lparr>reader := []\<rparr>)"
  using late_response_ignored
    [of fresh_with_response "0xFF" "0xFA" "0x00" "0x03" "[0x41, 0x42, 0x43]"]
  by (simp add: fresh_with_response_def init_def from_bytes_def)

end
